theory Spec2Isabelle
  imports Main
begin

section \<open>The object store\<close>

text \<open>
  \<^verbatim>\<open>torch/nn/parameter.py\<close> defines one class, \<^verbatim>\<open>Parameter(torch.Tensor)\<close>. Its
  methods depend on object identity (\<^verbatim>\<open>id(self)\<close> keys the deep-copy memo), on
  sharing (tags are kept by reference, tensor storage is aliased) and on allocation
  (\<^verbatim>\<open>{}\<close>, \<^verbatim>\<open>OrderedDict()\<close>, \<^verbatim>\<open>clone\<close>), so the model keeps an explicit store of
  objects. An address is the index of an object in the store; allocation appends, so a new
  object never has the address of an existing one. An address is what Python's \<^verbatim>\<open>id\<close>
  returns.
\<close>

type_synonym addr = nat

text \<open>
  A tensor handle: which storage it views and how (the shape and the memory format, here
  sizes and strides), and the autograd flag.
\<close>

record tensor =
  storage :: addr
  sizes :: "nat list"
  strides :: "nat list"
  requires_grad :: bool

text \<open>\<^verbatim>\<open>class Parameter(torch.Tensor)\<close>: a tensor with one more attribute, \<^verbatim>\<open>tags\<close>,
  a reference to a dict.\<close>

record Parameter = tensor +
  tags :: addr

text \<open>
  The objects of the store. The element type \<open>'e\<close> of a storage and the type \<open>'m\<close> of the
  metadata values of a tags dict stay abstract: the code never looks at them. A dict is an
  association list in insertion order, with string keys. An \<^verbatim>\<open>OrderedDict\<close> of
  backward hooks maps hook ids to hook objects.
\<close>

datatype ('e, 'm) obj =
    Storage "'e list"
  | Dict "(string \<times> 'm) list"
  | OrderedDict "(nat \<times> addr) list"
  | Param Parameter

type_synonym ('e, 'm) heap = "('e, 'm) obj list"

definition lookup :: "('e, 'm) heap \<Rightarrow> addr \<Rightarrow> ('e, 'm) obj option" where
  "lookup h a = (if a < length h then Some (h ! a) else None)"

definition alloc :: "('e, 'm) heap \<Rightarrow> ('e, 'm) obj \<Rightarrow> ('e, 'm) heap \<times> addr" where
  "alloc h v = (h @ [v], length h)"

section \<open>What the class takes from the tensor engine\<close>

text \<open>
  Modelled from the spec: \<^verbatim>\<open>torch.Tensor()\<close>, the tensor engine's constructor, is not part
  of this file. The spec calls its result "an empty tensor": a tensor over a new storage
  that holds no element.
\<close>

definition Tensor_empty :: "('e, 'm) heap \<Rightarrow> ('e, 'm) heap \<times> tensor" where
  "Tensor_empty h =
     (case alloc h (Storage []) of
        (h', a) \<Rightarrow> (h', \<lparr>storage = a, sizes = [0], strides = [1], requires_grad = False\<rparr>))"

text \<open>
  Modelled from the spec: \<^verbatim>\<open>torch.Tensor._make_subclass(cls, data, requires_grad)\<close> is not
  part of this file. The spec: "a subclass-construction primitive that binds a tensor-like
  object to a given wrapper type while preserving a gradient-tracking flag"; the new object
  "does not duplicate storage, it wraps/aliases it". The result is the tensor part of the new
  instance: the storage and layout of \<open>d\<close>, and the flag that was passed.
\<close>

definition make_subclass :: "tensor \<Rightarrow> bool \<Rightarrow> tensor" where
  "make_subclass d rg = d\<lparr>requires_grad := rg\<rparr>"

text \<open>
  Modelled from the spec: the attribute \<^verbatim>\<open>self.data\<close> of the tensor engine, "the
  underlying tensor storage (shape, dtype, device, values)": a plain tensor on the same
  storage, outside the autograd graph.
\<close>

definition data :: "Parameter \<Rightarrow> tensor" where
  "data p = \<lparr>storage = storage p, sizes = sizes p, strides = strides p, requires_grad = False\<rparr>"

text \<open>
  Modelled from the spec: \<^verbatim>\<open>Tensor.clone(memory_format=torch.preserve_format)\<close> is not part
  of this file. The spec: "a storage-preserving clone operation", "a storage-format-preserving
  clone": a new storage with the same elements, viewed with the same sizes and strides.
\<close>

definition clone :: "('e, 'm) heap \<Rightarrow> tensor \<Rightarrow> (('e, 'm) heap \<times> tensor) option" where
  "clone h t =
     (case lookup h (storage t) of
        Some (Storage xs) \<Rightarrow>
          (case alloc h (Storage xs) of (h', a) \<Rightarrow> Some (h', t\<lparr>storage := a\<rparr>))
      | _ \<Rightarrow> None)"

section \<open>The class Parameter\<close>

text \<open>
  \<^verbatim>\<open>def __new__(cls, data=None, requires_grad=True, tags=None)\<close>. The arguments \<open>d\<close> and
  \<open>tg\<close> are \<open>None\<close> where Python's are \<^verbatim>\<open>None\<close>; a caller that leaves
  \<^verbatim>\<open>requires_grad\<close> out passes \<open>True\<close>. The new instance enters the store when its
  attributes are set, and its address is returned.
\<close>

definition Parameter_new ::
  "('e, 'm) heap \<Rightarrow> tensor option \<Rightarrow> bool \<Rightarrow> addr option \<Rightarrow> ('e, 'm) heap \<times> addr" where
  "Parameter_new h d rg tg =
     (case (case d of None \<Rightarrow> Tensor_empty h | Some t \<Rightarrow> (h, t)) of
        (h1, d1) \<Rightarrow>
          (let inst = make_subclass d1 rg in
           (case (case tg of None \<Rightarrow> alloc h1 (Dict []) | Some a \<Rightarrow> (h1, a)) of
              (h2, tg1) \<Rightarrow>
                alloc h2 (Param \<lparr>storage = storage inst, sizes = sizes inst,
                                 strides = strides inst, requires_grad = requires_grad inst,
                                 tags = tg1\<rparr>))))"

text \<open>
  \<^verbatim>\<open>def __deepcopy__(self, memo)\<close>. The memo maps the identity of an object to its copy.
  The result is the store, the memo and the returned object. \<open>None\<close> is for a store that
  Python cannot have: \<open>self\<close> is not a Parameter, or its storage is missing.
  \<^verbatim>\<open>type(self)\<close> is \<^verbatim>\<open>Parameter\<close>: the model has no subclass of it. The tags
  attribute of a Parameter is a dict, never \<^verbatim>\<open>None\<close>, so the constructor is called
  with tags.
\<close>

definition Parameter_deepcopy ::
  "('e, 'm) heap \<Rightarrow> (addr \<rightharpoonup> addr) \<Rightarrow> addr \<Rightarrow> (('e, 'm) heap \<times> (addr \<rightharpoonup> addr) \<times> addr) option" where
  "Parameter_deepcopy h memo self =
     (case memo self of
        Some r \<Rightarrow> Some (h, memo, r)
      | None \<Rightarrow>
          (case lookup h self of
             Some (Param p) \<Rightarrow>
               (case clone h (data p) of
                  Some (h1, c) \<Rightarrow>
                    (case Parameter_new h1 (Some c) (requires_grad p) (Some (tags p)) of
                       (h2, result) \<Rightarrow> Some (h2, memo(self \<mapsto> result), result))
                | None \<Rightarrow> None)
           | _ \<Rightarrow> None))"

text \<open>
  \<^verbatim>\<open>def __reduce_ex__(self, proto)\<close>. The recipe is the reconstruction function and the
  tuple of its arguments. \<^verbatim>\<open>if self.tags:\<close> is Python's truth value of a dict: it has at
  least one key. The tuple is built left to right, and \<^verbatim>\<open>OrderedDict()\<close> allocates.
\<close>

datatype arg = ArgTensor tensor | ArgBool bool | ArgRef addr

datatype reconstructor = torch_utils_rebuild_parameter

definition Parameter_reduce_ex ::
  "('e, 'm) heap \<Rightarrow> addr \<Rightarrow> int \<Rightarrow> (('e, 'm) heap \<times> reconstructor \<times> arg list) option" where
  "Parameter_reduce_ex h self proto =
     (case lookup h self of
        Some (Param p) \<Rightarrow>
          (case lookup h (tags p) of
             Some (Dict kvs) \<Rightarrow>
               (if kvs \<noteq> [] then
                  (case alloc h (OrderedDict []) of
                     (h1, hooks) \<Rightarrow>
                       Some (h1, torch_utils_rebuild_parameter,
                             [ArgTensor (data p), ArgBool (requires_grad p), ArgRef hooks,
                              ArgRef (tags p)]))
                else
                  (case alloc h (OrderedDict []) of
                     (h1, hooks) \<Rightarrow>
                       Some (h1, torch_utils_rebuild_parameter,
                             [ArgTensor (data p), ArgBool (requires_grad p), ArgRef hooks])))
           | _ \<Rightarrow> None)
      | _ \<Rightarrow> None)"

text \<open>
  Modelled from the spec: \<^verbatim>\<open>torch._utils._rebuild_parameter\<close>, the reconstruction
  function named by the recipe, is not part of this file. The spec: replaying the recipe
  "rebuilds an equivalent Parameter", from \<^verbatim>\<open>(data, requires_grad, hooks)\<close> or from
  \<^verbatim>\<open>(data, requires_grad, hooks, tags)\<close>; the hooks slot is a placeholder that is never
  restored. The Parameter is built by the constructor of this file.
\<close>

fun rebuild_parameter ::
  "('e, 'm) heap \<Rightarrow> arg list \<Rightarrow> (('e, 'm) heap \<times> addr) option" where
  "rebuild_parameter h [ArgTensor d, ArgBool rg, ArgRef hooks] =
     Some (Parameter_new h (Some d) rg None)"
| "rebuild_parameter h [ArgTensor d, ArgBool rg, ArgRef hooks, ArgRef tg] =
     Some (Parameter_new h (Some d) rg (Some tg))"
| "rebuild_parameter h args = None"

text \<open>Replaying a recipe applies its function to its argument tuple.\<close>

definition replay ::
  "('e, 'm) heap \<Rightarrow> reconstructor \<times> arg list \<Rightarrow> (('e, 'm) heap \<times> addr) option" where
  "replay h recipe =
     (case recipe of (torch_utils_rebuild_parameter, args) \<Rightarrow> rebuild_parameter h args)"

text \<open>
  \<^verbatim>\<open>def __repr__(self)\<close>: \<^verbatim>\<open>'Parameter containing:\n' + super(Parameter, self).__repr__()\<close>.
  The formatter of the tensor engine, \<^verbatim>\<open>torch.Tensor.__repr__\<close>, is not part of this
  file and is the argument \<open>Tensor_repr\<close>: it is given the store and \<open>self\<close> as a tensor,
  and returns the string and the store it leaves.
\<close>

definition banner :: string where
  "banner = ''Parameter containing:'' @ [CHR 0x0A]"

definition Parameter_repr ::
  "(('e, 'm) heap \<Rightarrow> tensor \<Rightarrow> string \<times> ('e, 'm) heap) \<Rightarrow> ('e, 'm) heap \<Rightarrow> addr
     \<Rightarrow> (string \<times> ('e, 'm) heap) option" where
  "Parameter_repr Tensor_repr h self =
     (case lookup h self of
        Some (Param p) \<Rightarrow>
          (case Tensor_repr h (tensor.truncate p) of (s, h') \<Rightarrow> Some (banner @ s, h'))
      | _ \<Rightarrow> None)"

section \<open>Collaborators of the class\<close>

text \<open>
  Modelled from the spec: an in-place write of the tensor engine, which is not part of this
  file. It replaces the elements of the storage at \<open>a\<close>, and does nothing when \<open>a\<close> is
  not a storage.
\<close>

definition write_storage :: "('e, 'm) heap \<Rightarrow> addr \<Rightarrow> 'e list \<Rightarrow> ('e, 'm) heap" where
  "write_storage h a ys =
     (case lookup h a of Some (Storage xs) \<Rightarrow> h[a := Storage ys] | _ \<Rightarrow> h)"

text \<open>
  Modelled from the spec: \<^verbatim>\<open>Module.state_dict()\<close> is not part of this file. A module
  holds its parameters by name. The spec: in "a module's persisted-parameter-values
  snapshot", "only \<^verbatim>\<open>data\<close> and the grad flag are persisted".
\<close>

fun state_dict ::
  "('e, 'm) heap \<Rightarrow> (string \<times> addr) list \<Rightarrow> (string \<times> tensor \<times> bool) list option" where
  "state_dict h [] = Some []"
| "state_dict h ((name, a) # rest) =
     (case lookup h a of
        Some (Param p) \<Rightarrow>
          (case state_dict h rest of
             Some entries \<Rightarrow> Some ((name, data p, requires_grad p) # entries)
           | None \<Rightarrow> None)
      | _ \<Rightarrow> None)"

text \<open>The addresses of the dicts of a store, to tell whether a call made a new one.\<close>

fun is_Dict :: "('e, 'm) obj \<Rightarrow> bool" where
  "is_Dict (Dict kvs) = True"
| "is_Dict v = False"

definition dicts :: "('e, 'm) heap \<Rightarrow> addr list" where
  "dicts h = filter (\<lambda>a. is_Dict (h ! a)) [0..<length h]"

section \<open>An example store\<close>

text \<open>
  A storage of three elements, a tags dict with one key, a Parameter on both; an empty
  tags dict and a second Parameter on the same storage with it.
\<close>

definition tagged :: Parameter where
  "tagged = \<lparr>storage = 0, sizes = [3], strides = [1], requires_grad = True, tags = 1\<rparr>"

definition untagged :: Parameter where
  "untagged = \<lparr>storage = 0, sizes = [3], strides = [1], requires_grad = False, tags = 3\<rparr>"

definition store0 :: "(int, string) heap" where
  "store0 = [Storage [1, 2, 3], Dict [(''optimizer'', ''sgd'')], Param tagged,
             Dict [], Param untagged]"

text \<open>The same store after a deep copy of the first Parameter.\<close>

definition copied :: Parameter where
  "copied = \<lparr>storage = 5, sizes = [3], strides = [1], requires_grad = True, tags = 1\<rparr>"

definition store1 :: "(int, string) heap" where
  "store1 = store0 @ [Storage [1, 2, 3], Param copied]"

section \<open>The store under allocation\<close>

lemma lookup_append_old: "a < length h \<Longrightarrow> lookup (h @ ext) a = lookup h a"
  by (simp add: lookup_def nth_append)

lemma lookup_append_new: "lookup (h @ [v]) (length h) = Some v"
  by (simp add: lookup_def)

lemma lookup_Some_valid: "lookup h a = Some v \<Longrightarrow> a < length h"
  by (simp add: lookup_def split: if_splits)

lemma lookup_fresh: "lookup h (length h) = None"
  by (simp add: lookup_def)

lemma lookup_update:
  "lookup (h[a := v]) b = (if b = a \<and> a < length h then Some v else lookup h b)"
  by (simp add: lookup_def)

lemma dicts_append: "dicts (h @ [v]) = dicts h @ (if is_Dict v then [length h] else [])"
proof -
  have "filter (\<lambda>a. is_Dict ((h @ [v]) ! a)) [0..<length h] =
        filter (\<lambda>a. is_Dict (h ! a)) [0..<length h]"
    by (rule filter_cong) (auto simp: nth_append)
  then show ?thesis
    by (simp add: dicts_def)
qed

lemma dicts_append2:
  "dicts (h @ [v, w]) =
     dicts h @ (if is_Dict v then [length h] else [])
       @ (if is_Dict w then [Suc (length h)] else [])"
  using dicts_append [of "h @ [v]" w] by (simp add: dicts_append)

lemma dicts_append3:
  "dicts (h @ [u, v, w]) =
     dicts h @ (if is_Dict u then [length h] else [])
       @ (if is_Dict v then [Suc (length h)] else [])
       @ (if is_Dict w then [Suc (Suc (length h))] else [])"
  using dicts_append [of "h @ [u, v]" w] by (simp add: dicts_append2)

lemma write_storage_apart:
  assumes "lookup h b = Some (Storage ys0)" and "a \<noteq> b"
  shows "lookup (write_storage h b ys) a = lookup h a"
    and "lookup (write_storage h b ys) b = Some (Storage ys)"
  using assms by (simp_all add: write_storage_def lookup_update lookup_Some_valid)

section \<open>Construction\<close>

lemma Tensor_empty_eq:
  "Tensor_empty h =
     (h @ [Storage []],
      \<lparr>storage = length h, sizes = [0], strides = [1], requires_grad = False\<rparr>)"
  by (simp add: Tensor_empty_def alloc_def)

lemma Parameter_new_given:
  "Parameter_new h (Some t) rg (Some a) =
     (h @ [Param \<lparr>storage = storage t, sizes = sizes t, strides = strides t,
                  requires_grad = rg, tags = a\<rparr>], length h)"
  by (simp add: Parameter_new_def make_subclass_def alloc_def)

lemma Parameter_new_no_tags:
  "Parameter_new h (Some t) rg None =
     (h @ [Dict [], Param \<lparr>storage = storage t, sizes = sizes t, strides = strides t,
                           requires_grad = rg, tags = length h\<rparr>], Suc (length h))"
  by (simp add: Parameter_new_def make_subclass_def alloc_def)

lemma Parameter_new_no_data:
  "Parameter_new h None rg tg =
     (case Tensor_empty h of (h1, e) \<Rightarrow> Parameter_new h1 (Some e) rg tg)"
  by (simp add: Parameter_new_def split: prod.splits)

text \<open>
  C2. For every tensor \<open>t\<close> and flag \<open>g\<close>, whatever the tags argument, the constructor
  returns a new object, a Parameter on the storage of \<open>t\<close> with the sizes and strides of
  \<open>t\<close> (it aliases \<open>t\<close>: no storage is made, and the objects of the store stay as they
  were), and its \<^verbatim>\<open>requires_grad\<close> is \<open>g\<close>.
\<close>

theorem new_wraps_data:
  "\<exists>h' r q. Parameter_new h (Some t) g tg = (h', r)
     \<and> lookup h r = None \<and> lookup h' r = Some (Param q)
     \<and> storage q = storage t \<and> sizes q = sizes t \<and> strides q = strides t
     \<and> requires_grad q = g
     \<and> take (length h) h' = h"
proof (cases tg)
  case None
  then show ?thesis
    by (simp add: Parameter_new_no_tags lookup_def nth_append)
next
  case (Some a)
  then show ?thesis
    by (simp add: Parameter_new_given lookup_def)
qed

theorem new_wraps_data_witness:
  "Parameter_new store0 (Some (data tagged)) False (Some 3) =
     (store0 @ [Param untagged], 5)
   \<and> (\<exists>h' r q. Parameter_new store0 (Some (data tagged)) False (Some 3) = (h', r)
     \<and> lookup store0 r = None \<and> lookup h' r = Some (Param q)
     \<and> storage q = storage (data tagged) \<and> sizes q = sizes (data tagged)
     \<and> strides q = strides (data tagged)
     \<and> requires_grad q = False
     \<and> take (length store0) h' = store0)"
proof
  show "Parameter_new store0 (Some (data tagged)) False (Some 3) =
          (store0 @ [Param untagged], 5)"
    by (simp add: Parameter_new_given data_def tagged_def untagged_def store0_def)
  show "\<exists>h' r q. Parameter_new store0 (Some (data tagged)) False (Some 3) = (h', r)
     \<and> lookup store0 r = None \<and> lookup h' r = Some (Param q)
     \<and> storage q = storage (data tagged) \<and> sizes q = sizes (data tagged)
     \<and> strides q = strides (data tagged)
     \<and> requires_grad q = False
     \<and> take (length store0) h' = store0"
    by (rule new_wraps_data)
qed

text \<open>
  C3. With no data, the constructor wraps what \<^verbatim>\<open>torch.Tensor()\<close> returns: the new
  Parameter is on a new storage that holds no element, whatever the flag and the tags
  argument.
\<close>

theorem new_without_data:
  "\<exists>h' r q. Parameter_new h None g tg = (h', r)
     \<and> Parameter_new (fst (Tensor_empty h)) (Some (snd (Tensor_empty h))) g tg = (h', r)
     \<and> lookup h r = None \<and> lookup h' r = Some (Param q)
     \<and> lookup h (storage q) = None \<and> lookup h' (storage q) = Some (Storage [])
     \<and> sizes q = [0] \<and> requires_grad q = g
     \<and> take (length h) h' = h"
proof (cases tg)
  case None
  then show ?thesis
    by (simp add: Parameter_new_no_data Tensor_empty_eq Parameter_new_no_tags lookup_def
        nth_append)
next
  case (Some a)
  then show ?thesis
    by (simp add: Parameter_new_no_data Tensor_empty_eq Parameter_new_given lookup_def
        nth_append)
qed

theorem new_without_data_witness:
  "Parameter_new store0 None True None =
     (store0 @ [Storage [], Dict [],
                Param \<lparr>storage = 5, sizes = [0], strides = [1], requires_grad = True,
                       tags = 6\<rparr>], 7)
   \<and> (\<exists>h' r q. Parameter_new store0 None True None = (h', r)
     \<and> Parameter_new (fst (Tensor_empty store0)) (Some (snd (Tensor_empty store0))) True None
         = (h', r)
     \<and> lookup store0 r = None \<and> lookup h' r = Some (Param q)
     \<and> lookup store0 (storage q) = None \<and> lookup h' (storage q) = Some (Storage [])
     \<and> sizes q = [0] \<and> requires_grad q = True
     \<and> take (length store0) h' = store0)"
proof
  show "Parameter_new store0 None True None =
     (store0 @ [Storage [], Dict [],
                Param \<lparr>storage = 5, sizes = [0], strides = [1], requires_grad = True,
                       tags = 6\<rparr>], 7)"
    by (simp add: Parameter_new_no_data Tensor_empty_eq Parameter_new_no_tags store0_def)
  show "\<exists>h' r q. Parameter_new store0 None True None = (h', r)
     \<and> Parameter_new (fst (Tensor_empty store0)) (Some (snd (Tensor_empty store0))) True None
         = (h', r)
     \<and> lookup store0 r = None \<and> lookup h' r = Some (Param q)
     \<and> lookup store0 (storage q) = None \<and> lookup h' (storage q) = Some (Storage [])
     \<and> sizes q = [0] \<and> requires_grad q = True
     \<and> take (length store0) h' = store0"
    by (rule new_without_data)
qed

text \<open>
  C4. With no tags argument, the tags of the new Parameter is a new dict, empty, and the
  only dict the call makes. With a tags argument \<open>a\<close>, the tags of the new Parameter is
  \<open>a\<close> itself: the call makes no dict and leaves the objects of the store as they were.
\<close>

theorem new_tags:
  "(\<exists>h' r q. Parameter_new h d g None = (h', r) \<and> lookup h' r = Some (Param q)
      \<and> lookup h (tags q) = None \<and> lookup h' (tags q) = Some (Dict [])
      \<and> dicts h' = dicts h @ [tags q])
   \<and> (\<exists>h' r q. Parameter_new h d g (Some a) = (h', r) \<and> lookup h' r = Some (Param q)
      \<and> tags q = a \<and> dicts h' = dicts h \<and> take (length h) h' = h)"
proof (cases d)
  case None
  then show ?thesis
    by (simp add: Parameter_new_no_data Tensor_empty_eq Parameter_new_no_tags
        Parameter_new_given lookup_def nth_append dicts_append dicts_append2 dicts_append3)
next
  case (Some t)
  then show ?thesis
    by (simp add: Parameter_new_no_tags Parameter_new_given lookup_def nth_append
        dicts_append dicts_append2)
qed

theorem new_tags_witness:
  "dicts store0 = [1, 3]
   \<and> (\<exists>h' r q. Parameter_new store0 (Some (data tagged)) True None = (h', r)
      \<and> lookup h' r = Some (Param q)
      \<and> lookup store0 (tags q) = None \<and> lookup h' (tags q) = Some (Dict [])
      \<and> dicts h' = dicts store0 @ [tags q])
   \<and> (\<exists>h' r q. Parameter_new store0 (Some (data tagged)) True (Some 1) = (h', r)
      \<and> lookup h' r = Some (Param q)
      \<and> tags q = 1 \<and> dicts h' = dicts store0 \<and> take (length store0) h' = store0)"
proof
  show "dicts store0 = [1, 3]"
    by (simp add: dicts_def store0_def upt_rec)
  show "(\<exists>h' r q. Parameter_new store0 (Some (data tagged)) True None = (h', r)
      \<and> lookup h' r = Some (Param q)
      \<and> lookup store0 (tags q) = None \<and> lookup h' (tags q) = Some (Dict [])
      \<and> dicts h' = dicts store0 @ [tags q])
   \<and> (\<exists>h' r q. Parameter_new store0 (Some (data tagged)) True (Some 1) = (h', r)
      \<and> lookup h' r = Some (Param q)
      \<and> tags q = 1 \<and> dicts h' = dicts store0 \<and> take (length store0) h' = store0)"
    by (rule new_tags)
qed

section \<open>Serialization: the two arities\<close>

lemma reduce_ex_tagged:
  assumes "lookup h self = Some (Param p)" and "lookup h (tags p) = Some (Dict kvs)"
    and "kvs \<noteq> []"
  shows "Parameter_reduce_ex h self proto =
           Some (h @ [OrderedDict []], torch_utils_rebuild_parameter,
                 [ArgTensor (data p), ArgBool (requires_grad p), ArgRef (length h),
                  ArgRef (tags p)])"
  using assms by (simp add: Parameter_reduce_ex_def alloc_def)

lemma reduce_ex_untagged:
  assumes "lookup h self = Some (Param p)" and "lookup h (tags p) = Some (Dict [])"
  shows "Parameter_reduce_ex h self proto =
           Some (h @ [OrderedDict []], torch_utils_rebuild_parameter,
                 [ArgTensor (data p), ArgBool (requires_grad p), ArgRef (length h)])"
  using assms by (simp add: Parameter_reduce_ex_def alloc_def)

lemma store0_tagged:
  "lookup store0 2 = Some (Param tagged)"
  "lookup store0 (tags tagged) = Some (Dict [(''optimizer'', ''sgd'')])"
  "lookup store0 (storage tagged) = Some (Storage [1, 2, 3])"
  by (simp_all add: store0_def tagged_def lookup_def)

lemma store0_untagged:
  "lookup store0 4 = Some (Param untagged)"
  "lookup store0 (tags untagged) = Some (Dict [])"
  "lookup store0 (storage untagged) = Some (Storage [1, 2, 3])"
  by (simp_all add: store0_def untagged_def lookup_def)

text \<open>
  C1. The recipe of \<^verbatim>\<open>__reduce_ex__\<close> has two arities. For a Parameter whose tags dict
  is empty the argument tuple has exactly 3 entries: the data, the flag and a new, empty
  ordered dict of hooks. For a Parameter whose tags dict is not empty it has exactly 4, the
  same three and then the Parameter's own tags dict, which the call leaves as it was.
\<close>

theorem reduce_ex_arity:
  assumes "lookup h self = Some (Param p)" and "lookup h (tags p) = Some (Dict kvs)"
  shows "\<exists>h' args.
           Parameter_reduce_ex h self proto = Some (h', torch_utils_rebuild_parameter, args)
         \<and> take 3 args = [ArgTensor (data p), ArgBool (requires_grad p), ArgRef (length h)]
         \<and> lookup h' (length h) = Some (OrderedDict [])
         \<and> lookup h' (tags p) = Some (Dict kvs)
         \<and> (if kvs = [] then length args = 3
            else length args = 4 \<and> args ! 3 = ArgRef (tags p))"
proof (cases "kvs = []")
  case True
  with assms have "Parameter_reduce_ex h self proto =
      Some (h @ [OrderedDict []], torch_utils_rebuild_parameter,
            [ArgTensor (data p), ArgBool (requires_grad p), ArgRef (length h)])"
    by (simp add: reduce_ex_untagged)
  moreover have "lookup (h @ [OrderedDict []]) (tags p) = Some (Dict kvs)"
    using assms(2) by (simp add: lookup_append_old lookup_Some_valid)
  ultimately show ?thesis
    using True by (simp add: lookup_append_new)
next
  case False
  with assms have "Parameter_reduce_ex h self proto =
      Some (h @ [OrderedDict []], torch_utils_rebuild_parameter,
            [ArgTensor (data p), ArgBool (requires_grad p), ArgRef (length h),
             ArgRef (tags p)])"
    by (simp add: reduce_ex_tagged)
  moreover have "lookup (h @ [OrderedDict []]) (tags p) = Some (Dict kvs)"
    using assms(2) by (simp add: lookup_append_old lookup_Some_valid)
  ultimately show ?thesis
    using False by (simp add: lookup_append_new)
qed

theorem reduce_ex_arity_witness:
  "lookup store0 2 = Some (Param tagged)
   \<and> lookup store0 (tags tagged) = Some (Dict [(''optimizer'', ''sgd'')])
   \<and> (\<exists>h' args.
         Parameter_reduce_ex store0 2 2 = Some (h', torch_utils_rebuild_parameter, args)
       \<and> length args = 4 \<and> args ! 3 = ArgRef (tags tagged))
   \<and> lookup store0 4 = Some (Param untagged)
   \<and> lookup store0 (tags untagged) = Some (Dict [])
   \<and> (\<exists>h' args.
         Parameter_reduce_ex store0 4 2 = Some (h', torch_utils_rebuild_parameter, args)
       \<and> length args = 3)"
proof -
  obtain h1 args1 where
    "Parameter_reduce_ex store0 2 2 = Some (h1, torch_utils_rebuild_parameter, args1)"
    "length args1 = 4" "args1 ! 3 = ArgRef (tags tagged)"
    using reduce_ex_arity [OF store0_tagged(1) store0_tagged(2), of 2] by auto
  moreover obtain h2 args2 where
    "Parameter_reduce_ex store0 4 2 = Some (h2, torch_utils_rebuild_parameter, args2)"
    "length args2 = 3"
    using reduce_ex_arity [OF store0_untagged(1) store0_untagged(2), of 2] by auto
  ultimately show ?thesis
    using store0_tagged store0_untagged by blast
qed

section \<open>Serialization: replaying the recipe\<close>

text \<open>
  C7. Replaying the recipe of a Parameter builds a new Parameter with the same data (the
  same storage, sizes and strides) and the same \<^verbatim>\<open>requires_grad\<close>. Its tags dict has
  the contents of the original's; in the 4-argument form, which is the form of a Parameter
  with tags, it is the original's tags dict.
\<close>

theorem reduce_ex_round_trip:
  assumes "lookup h self = Some (Param p)" and "lookup h (tags p) = Some (Dict kvs)"
  shows "\<exists>h1 recipe h2 r q.
           Parameter_reduce_ex h self proto = Some (h1, recipe)
         \<and> replay h1 recipe = Some (h2, r)
         \<and> lookup h r = None \<and> lookup h2 r = Some (Param q)
         \<and> data q = data p
         \<and> requires_grad q = requires_grad p
         \<and> lookup h2 (tags q) = Some (Dict kvs)
         \<and> (kvs \<noteq> [] \<longrightarrow> length (snd recipe) = 4 \<and> tags q = tags p)
         \<and> take (length h) h2 = h"
proof (cases "kvs = []")
  case True
  with assms have "Parameter_reduce_ex h self proto =
      Some (h @ [OrderedDict []], torch_utils_rebuild_parameter,
            [ArgTensor (data p), ArgBool (requires_grad p), ArgRef (length h)])"
    by (simp add: reduce_ex_untagged)
  then show ?thesis
    using True
    by (simp add: replay_def Parameter_new_no_tags lookup_def nth_append data_def)
next
  case False
  have valid: "tags p < length h"
    using assms(2) by (rule lookup_Some_valid)
  from False assms have "Parameter_reduce_ex h self proto =
      Some (h @ [OrderedDict []], torch_utils_rebuild_parameter,
            [ArgTensor (data p), ArgBool (requires_grad p), ArgRef (length h),
             ArgRef (tags p)])"
    by (simp add: reduce_ex_tagged)
  moreover have "lookup (h @ [OrderedDict [], v]) (tags p) = Some (Dict kvs)" for v
    using assms(2) valid by (simp add: lookup_append_old)
  ultimately show ?thesis
    using False
    by (simp add: replay_def Parameter_new_given data_def lookup_append_new lookup_fresh)
       (simp add: lookup_def)
qed

theorem reduce_ex_round_trip_witness:
  "lookup store0 2 = Some (Param tagged)
   \<and> lookup store0 (tags tagged) = Some (Dict [(''optimizer'', ''sgd'')])
   \<and> (\<exists>h1 recipe h2 r q.
         Parameter_reduce_ex store0 2 2 = Some (h1, recipe)
       \<and> replay h1 recipe = Some (h2, r)
       \<and> lookup h2 r = Some (Param q)
       \<and> data q = data tagged \<and> requires_grad q = requires_grad tagged
       \<and> tags q = tags tagged)
   \<and> lookup store0 4 = Some (Param untagged)
   \<and> lookup store0 (tags untagged) = Some (Dict [])
   \<and> (\<exists>h1 recipe h2 r q.
         Parameter_reduce_ex store0 4 2 = Some (h1, recipe)
       \<and> replay h1 recipe = Some (h2, r)
       \<and> lookup h2 r = Some (Param q)
       \<and> data q = data untagged \<and> requires_grad q = requires_grad untagged
       \<and> lookup h2 (tags q) = Some (Dict []))"
proof -
  have a: "\<exists>h1 recipe h2 r q.
         Parameter_reduce_ex store0 2 2 = Some (h1, recipe)
       \<and> replay h1 recipe = Some (h2, r)
       \<and> lookup h2 r = Some (Param q)
       \<and> data q = data tagged \<and> requires_grad q = requires_grad tagged
       \<and> tags q = tags tagged"
    using reduce_ex_round_trip [OF store0_tagged(1) store0_tagged(2), of 2] by auto
  have b: "\<exists>h1 recipe h2 r q.
         Parameter_reduce_ex store0 4 2 = Some (h1, recipe)
       \<and> replay h1 recipe = Some (h2, r)
       \<and> lookup h2 r = Some (Param q)
       \<and> data q = data untagged \<and> requires_grad q = requires_grad untagged
       \<and> lookup h2 (tags q) = Some (Dict [])"
    using reduce_ex_round_trip [OF store0_untagged(1) store0_untagged(2), of 2] by auto
  show ?thesis
    using a b store0_tagged store0_untagged by simp
qed

section \<open>Deep copy\<close>

lemma deepcopy_hit:
  "memo self = Some r \<Longrightarrow> Parameter_deepcopy h memo self = Some (h, memo, r)"
  by (simp add: Parameter_deepcopy_def)

lemma deepcopy_miss:
  assumes "memo self = None" and "lookup h self = Some (Param p)"
    and "lookup h (storage p) = Some (Storage xs)"
  shows "Parameter_deepcopy h memo self =
           Some (h @ [Storage xs,
                      Param \<lparr>storage = length h, sizes = sizes p, strides = strides p,
                             requires_grad = requires_grad p, tags = tags p\<rparr>],
                 memo(self \<mapsto> Suc (length h)), Suc (length h))"
  using assms
  by (simp add: Parameter_deepcopy_def clone_def data_def alloc_def Parameter_new_given)

lemma deepcopy_memo_after:
  "Parameter_deepcopy h memo self = Some (h1, memo1, r1) \<Longrightarrow> memo1 self = Some r1"
  by (auto simp: Parameter_deepcopy_def split: option.splits obj.splits prod.splits)

lemma deepcopy_returns:
  assumes "lookup h self = Some (Param p)" and "lookup h (storage p) = Some (Storage xs)"
  shows "\<exists>h1 memo1 r1. Parameter_deepcopy h memo self = Some (h1, memo1, r1)"
proof (cases "memo self")
  case None
  then show ?thesis
    using deepcopy_miss [of memo self h p xs] assms by simp
next
  case (Some r0)
  then show ?thesis
    using deepcopy_hit [of memo self r0 h] by simp
qed

lemma store0_deepcopy:
  "Parameter_deepcopy store0 Map.empty 2 = Some (store1, [2 \<mapsto> 6], 6)"
proof -
  have len: "length store0 = 5"
    by (simp add: store0_def)
  show ?thesis
    using deepcopy_miss [of Map.empty 2 store0 tagged "[1, 2, 3]"] store0_tagged
    by (simp add: len store1_def copied_def tagged_def)
qed

lemma store1_tagged:
  "lookup store1 2 = Some (Param tagged)"
  "lookup store1 (storage tagged) = Some (Storage [1, 2, 3])"
  "lookup store1 6 = Some (Param copied)"
  "lookup store1 (storage copied) = Some (Storage [1, 2, 3])"
  by (simp_all add: store1_def store0_def tagged_def copied_def lookup_def)

text \<open>
  C5. With the identity of \<open>p\<close> not in the memo, \<^verbatim>\<open>__deepcopy__\<close> returns a new
  Parameter \<open>q\<close>: its storage is a new one with the elements of \<open>p\<close>'s, viewed with the same
  sizes and strides; its \<^verbatim>\<open>requires_grad\<close> is \<open>p\<close>'s; its tags is the very dict of \<open>p\<close>
  (no dict is made). A write to the storage of the copy leaves the storage of \<open>p\<close> as it
  was. \<open>p\<close> itself is left as it was.
\<close>

theorem deepcopy_fresh_copy:
  assumes "memo self = None" and "lookup h self = Some (Param p)"
    and "lookup h (storage p) = Some (Storage xs)"
  shows "\<exists>h' memo' r q.
           Parameter_deepcopy h memo self = Some (h', memo', r)
         \<and> lookup h r = None \<and> lookup h' r = Some (Param q)
         \<and> lookup h' self = Some (Param p)
         \<and> storage q \<noteq> storage p
         \<and> lookup h (storage q) = None
         \<and> lookup h' (storage q) = Some (Storage xs)
         \<and> lookup h' (storage p) = Some (Storage xs)
         \<and> sizes q = sizes p \<and> strides q = strides p
         \<and> requires_grad q = requires_grad p
         \<and> tags q = tags p
         \<and> dicts h' = dicts h
         \<and> (\<forall>ys. lookup (write_storage h' (storage q) ys) (storage p) = Some (Storage xs)
                \<and> lookup (write_storage h' (storage q) ys) (storage q) = Some (Storage ys))"
proof -
  let ?q = "\<lparr>storage = length h, sizes = sizes p, strides = strides p,
             requires_grad = requires_grad p, tags = tags p\<rparr>"
  let ?h' = "h @ [Storage xs, Param ?q]"
  have run: "Parameter_deepcopy h memo self =
               Some (?h', memo(self \<mapsto> Suc (length h)), Suc (length h))"
    using assms by (rule deepcopy_miss)
  have valid: "self < length h" "storage p < length h"
    using assms(2,3) by (simp_all add: lookup_Some_valid)
  have old: "lookup ?h' self = Some (Param p)" "lookup ?h' (storage p) = Some (Storage xs)"
    using assms(2,3) valid by (simp_all add: lookup_append_old)
  have new: "lookup ?h' (length h) = Some (Storage xs)"
    "lookup ?h' (Suc (length h)) = Some (Param ?q)"
    by (simp_all add: lookup_def nth_append)
  have fresh: "lookup h (length h) = None" "lookup h (Suc (length h)) = None"
    by (simp_all add: lookup_def)
  have apart: "storage p \<noteq> length h"
    using valid by simp
  have wr: "lookup (write_storage ?h' (length h) ys) (storage p) = Some (Storage xs)
          \<and> lookup (write_storage ?h' (length h) ys) (length h) = Some (Storage ys)" for ys
    using write_storage_apart [OF new(1) apart, of ys] old(2) by simp
  show ?thesis
    using run old new fresh wr apart by (simp add: dicts_append2)
qed

theorem deepcopy_fresh_copy_witness:
  "Map.empty (2 :: nat) = (None :: nat option)
   \<and> lookup store0 2 = Some (Param tagged)
   \<and> lookup store0 (storage tagged) = Some (Storage [1, 2, 3])
   \<and> (\<exists>h' memo' r q.
         Parameter_deepcopy store0 Map.empty 2 = Some (h', memo', r)
       \<and> lookup store0 r = None \<and> lookup h' r = Some (Param q)
       \<and> storage q \<noteq> storage tagged
       \<and> lookup h' (storage q) = Some (Storage [1, 2, 3])
       \<and> requires_grad q = requires_grad tagged
       \<and> tags q = tags tagged
       \<and> lookup (write_storage h' (storage q) [7, 8, 9]) (storage tagged)
           = Some (Storage [1, 2, 3])
       \<and> lookup (write_storage h' (storage q) [7, 8, 9]) (storage q)
           = Some (Storage [7, 8, 9]))"
proof -
  have e: "Map.empty (2 :: nat) = (None :: nat option)"
    by simp
  obtain h' memo' r q where run:
    "Parameter_deepcopy store0 Map.empty 2 = Some (h', memo', r)"
    "lookup store0 r = None" "lookup h' r = Some (Param q)"
    "storage q \<noteq> storage tagged"
    "lookup h' (storage q) = Some (Storage [1, 2, 3])"
    "requires_grad q = requires_grad tagged" "tags q = tags tagged"
    and wr: "\<forall>ys. lookup (write_storage h' (storage q) ys) (storage tagged)
                  = Some (Storage [1, 2, 3])
              \<and> lookup (write_storage h' (storage q) ys) (storage q) = Some (Storage ys)"
    using deepcopy_fresh_copy [OF e store0_tagged(1) store0_tagged(3)] by blast
  from wr have
    "lookup (write_storage h' (storage q) [7, 8, 9]) (storage tagged) = Some (Storage [1, 2, 3])
     \<and> lookup (write_storage h' (storage q) [7, 8, 9]) (storage q) = Some (Storage [7, 8, 9])"
    by (rule spec)
  with run show ?thesis
    using e store0_tagged by blast
qed

text \<open>
  C6. With the identity of \<open>p\<close> a key of the memo, \<^verbatim>\<open>__deepcopy__\<close> returns the object
  the memo holds for it and changes nothing. So a second deep copy with the store and the
  memo the first one left returns the same object, and changes nothing; and on a Parameter
  of the store the first deep copy does return.
\<close>

theorem deepcopy_memoized:
  "(memo self = Some r \<longrightarrow> Parameter_deepcopy h memo self = Some (h, memo, r))
   \<and> (Parameter_deepcopy h memo self = Some (h1, memo1, r1)
        \<longrightarrow> Parameter_deepcopy h1 memo1 self = Some (h1, memo1, r1))
   \<and> (lookup h self = Some (Param p) \<and> lookup h (storage p) = Some (Storage xs)
        \<longrightarrow> (\<exists>h2 memo2 r2. Parameter_deepcopy h memo self = Some (h2, memo2, r2)
              \<and> Parameter_deepcopy h2 memo2 self = Some (h2, memo2, r2)))"
proof (intro conjI impI)
  assume "memo self = Some r"
  then show "Parameter_deepcopy h memo self = Some (h, memo, r)"
    by (rule deepcopy_hit)
next
  assume "Parameter_deepcopy h memo self = Some (h1, memo1, r1)"
  then have "memo1 self = Some r1"
    by (rule deepcopy_memo_after)
  then show "Parameter_deepcopy h1 memo1 self = Some (h1, memo1, r1)"
    by (rule deepcopy_hit)
next
  assume "lookup h self = Some (Param p) \<and> lookup h (storage p) = Some (Storage xs)"
  then obtain h2 memo2 r2 where run: "Parameter_deepcopy h memo self = Some (h2, memo2, r2)"
    using deepcopy_returns [of h self p xs memo] by blast
  then have "memo2 self = Some r2"
    by (rule deepcopy_memo_after)
  then have "Parameter_deepcopy h2 memo2 self = Some (h2, memo2, r2)"
    by (rule deepcopy_hit)
  with run show "\<exists>h2 memo2 r2. Parameter_deepcopy h memo self = Some (h2, memo2, r2)
              \<and> Parameter_deepcopy h2 memo2 self = Some (h2, memo2, r2)"
    by blast
qed

theorem deepcopy_memoized_witness:
  "[2 \<mapsto> 6] (2 :: nat) = Some (6 :: nat)
   \<and> Parameter_deepcopy store1 [2 \<mapsto> 6] 2 = Some (store1, [2 \<mapsto> 6], 6)
   \<and> lookup store0 2 = Some (Param tagged)
   \<and> lookup store0 (storage tagged) = Some (Storage [1, 2, 3])
   \<and> Parameter_deepcopy store0 Map.empty 2 = Some (store1, [2 \<mapsto> 6], 6)
   \<and> (\<exists>h2 memo2 r2. Parameter_deepcopy store0 Map.empty 2 = Some (h2, memo2, r2)
        \<and> Parameter_deepcopy h2 memo2 2 = Some (h2, memo2, r2))"
proof -
  have hit: "[2 \<mapsto> 6] (2 :: nat) = Some (6 :: nat)"
    by simp
  have again: "Parameter_deepcopy store1 [2 \<mapsto> 6] 2 = Some (store1, [2 \<mapsto> 6], 6)"
    using deepcopy_memoized
      [where memo = "[2 \<mapsto> 6]" and self = 2 and r = 6 and h = store1] hit
    by blast
  have twice: "\<exists>h2 memo2 r2. Parameter_deepcopy store0 Map.empty 2 = Some (h2, memo2, r2)
        \<and> Parameter_deepcopy h2 memo2 2 = Some (h2, memo2, r2)"
    using deepcopy_memoized
      [where h = store0 and self = 2 and p = tagged and xs = "[1, 2, 3]"
         and memo = Map.empty]
      store0_tagged(1) store0_tagged(3)
    by blast
  show ?thesis
    using hit again twice store0_tagged(1) store0_tagged(3) store0_deepcopy by blast
qed

lemma store0_deepcopy_memo:
  "memo 2 = None \<Longrightarrow>
   Parameter_deepcopy store0 memo 2 = Some (store1, memo(2 \<mapsto> 6), 6)"
proof -
  assume none: "memo 2 = None"
  have len: "length store0 = 5"
    by (simp add: store0_def)
  show ?thesis
    using deepcopy_miss [of memo 2 store0 tagged "[1, 2, 3]"] none store0_tagged
    by (simp add: len store1_def copied_def tagged_def)
qed

text \<open>
  C8. On a Parameter of the store \<^verbatim>\<open>__deepcopy__\<close> returns. When its identity is a key
  of the memo, the memo (and the store) is left as it was, and the object returned is the
  one the memo holds. When it is not, the memo gets one entry and no other change: the
  identity of the Parameter, mapped to the returned object. That object is the new copy:
  it is not an object of the store before the call, and in the store after the call it is
  a Parameter on a new storage with the elements of the original's, with the original's
  sizes, strides, \<^verbatim>\<open>requires_grad\<close> and tags. The store after the call is the store
  before it and two more objects. A finite memo has one key more.
\<close>

theorem deepcopy_memo_effect:
  assumes "lookup h self = Some (Param p)" and "lookup h (storage p) = Some (Storage xs)"
  shows "\<exists>h' memo' r.
           Parameter_deepcopy h memo self = Some (h', memo', r)
         \<and> (if self \<in> dom memo then memo' = memo \<and> h' = h \<and> memo self = Some r
            else memo' = memo(self \<mapsto> r) \<and> lookup h r = None
               \<and> (\<exists>q. lookup h' r = Some (Param q)
                     \<and> storage q \<noteq> storage p \<and> lookup h (storage q) = None
                     \<and> lookup h' (storage q) = Some (Storage xs)
                     \<and> sizes q = sizes p \<and> strides q = strides p
                     \<and> requires_grad q = requires_grad p \<and> tags q = tags p)
               \<and> take (length h) h' = h \<and> length h' = length h + 2
               \<and> dom memo' = insert self (dom memo)
               \<and> (\<forall>k. k \<noteq> self \<longrightarrow> memo' k = memo k)
               \<and> (finite (dom memo) \<longrightarrow> card (dom memo') = Suc (card (dom memo))))"
proof (cases "memo self")
  case None
  let ?q = "\<lparr>storage = length h, sizes = sizes p, strides = strides p,
             requires_grad = requires_grad p, tags = tags p\<rparr>"
  let ?h' = "h @ [Storage xs, Param ?q]"
  have absent: "self \<notin> dom memo"
    using None by (simp add: domIff)
  have run: "Parameter_deepcopy h memo self =
               Some (?h', memo(self \<mapsto> Suc (length h)), Suc (length h))"
    using None assms by (rule deepcopy_miss)
  have apart: "length h \<noteq> storage p"
    using lookup_Some_valid [OF assms(2)] by simp
  have copy: "lookup ?h' (Suc (length h)) = Some (Param ?q)"
    "lookup ?h' (length h) = Some (Storage xs)"
    by (simp_all add: lookup_def nth_append)
  have fresh: "lookup h (Suc (length h)) = None" "lookup h (length h) = None"
    by (simp_all add: lookup_def)
  have entry: "\<exists>q. lookup ?h' (Suc (length h)) = Some (Param q)
                     \<and> storage q \<noteq> storage p \<and> lookup h (storage q) = None
                     \<and> lookup ?h' (storage q) = Some (Storage xs)
                     \<and> sizes q = sizes p \<and> strides q = strides p
                     \<and> requires_grad q = requires_grad p \<and> tags q = tags p"
    using copy fresh apart by (intro exI [of _ ?q]) simp
  show ?thesis
    using run absent entry fresh(1) by simp
next
  case (Some r0)
  then have "self \<in> dom memo"
    by (simp add: domIff)
  then show ?thesis
    using deepcopy_hit [of memo self r0 h] Some by simp
qed

theorem deepcopy_memo_effect_witness:
  "lookup store0 2 = Some (Param tagged)
   \<and> lookup store0 (storage tagged) = Some (Storage [1, 2, 3])
   \<and> Parameter_deepcopy store0 [4 \<mapsto> 9] 2 = Some (store1, [4 \<mapsto> 9, 2 \<mapsto> 6], 6)
   \<and> lookup store0 6 = None \<and> lookup store1 6 = Some (Param copied)
   \<and> (\<exists>h' memo' r q. Parameter_deepcopy store0 [4 \<mapsto> 9] 2 = Some (h', memo', r)
        \<and> memo' = [4 \<mapsto> 9, 2 \<mapsto> r] \<and> lookup store0 r = None
        \<and> lookup h' r = Some (Param q)
        \<and> storage q \<noteq> storage tagged
        \<and> lookup h' (storage q) = Some (Storage [1, 2, 3])
        \<and> requires_grad q = requires_grad tagged \<and> tags q = tags tagged
        \<and> take (length store0) h' = store0 \<and> length h' = length store0 + 2
        \<and> dom memo' = {2, 4} \<and> memo' 4 = Some 9 \<and> card (dom memo') = 2)
   \<and> lookup store1 2 = Some (Param tagged)
   \<and> lookup store1 (storage tagged) = Some (Storage [1, 2, 3])
   \<and> Parameter_deepcopy store1 [2 \<mapsto> 6] 2 = Some (store1, [2 \<mapsto> 6], 6)"
proof -
  have run: "Parameter_deepcopy store0 [4 \<mapsto> 9] 2 = Some (store1, [4 \<mapsto> 9, 2 \<mapsto> 6], 6)"
    using store0_deepcopy_memo [of "[4 \<mapsto> 9]"] by simp
  have new: "lookup store0 6 = None"
    by (simp add: store0_def lookup_def)
  have miss: "\<exists>h' memo' r q. Parameter_deepcopy store0 [4 \<mapsto> 9] 2 = Some (h', memo', r)
        \<and> memo' = [4 \<mapsto> 9, 2 \<mapsto> r] \<and> lookup store0 r = None
        \<and> lookup h' r = Some (Param q)
        \<and> storage q \<noteq> storage tagged
        \<and> lookup h' (storage q) = Some (Storage [1, 2, 3])
        \<and> requires_grad q = requires_grad tagged \<and> tags q = tags tagged
        \<and> take (length store0) h' = store0 \<and> length h' = length store0 + 2
        \<and> dom memo' = {2, 4} \<and> memo' 4 = Some 9 \<and> card (dom memo') = 2"
    using deepcopy_memo_effect [OF store0_tagged(1) store0_tagged(3), of "[4 \<mapsto> 9]"]
    by auto
  have hit: "Parameter_deepcopy store1 [2 \<mapsto> 6] 2 = Some (store1, [2 \<mapsto> 6], 6)"
    using deepcopy_memo_effect [OF store1_tagged(1) store1_tagged(2), of "[2 \<mapsto> 6]"]
    by auto
  show ?thesis
    using run new miss hit store0_tagged(1) store0_tagged(3) store1_tagged(1)
      store1_tagged(2) store1_tagged(3)
    by blast
qed

section \<open>Display\<close>

text \<open>
  C9. The string of \<^verbatim>\<open>__repr__\<close> is the banner \<^verbatim>\<open>'Parameter containing:\n'\<close> and then
  the string the formatter of the tensor engine gives for \<open>self\<close>. The store after the call
  is the store the formatter leaves: \<^verbatim>\<open>__repr__\<close> has no effect of its own, and with a
  formatter that leaves the store as it was (\<open>h' = h\<close>) so does \<^verbatim>\<open>__repr__\<close>.
\<close>

theorem repr_banner:
  assumes "lookup h self = Some (Param p)"
    and "Tensor_repr h (tensor.truncate p) = (s, h')"
  shows "\<exists>out. Parameter_repr Tensor_repr h self = Some (out, h')
         \<and> out = ''Parameter containing:'' @ [CHR 0x0A] @ s
         \<and> take (length banner) out = banner \<and> drop (length banner) out = s"
  using assms by (simp add: Parameter_repr_def banner_def)

theorem repr_banner_witness:
  "lookup store0 2 = Some (Param tagged)
   \<and> (\<lambda>h t. (''tensor([1, 2, 3], requires_grad=True)'', h)) store0 (tensor.truncate tagged)
       = (''tensor([1, 2, 3], requires_grad=True)'', store0)
   \<and> Parameter_repr (\<lambda>h t. (''tensor([1, 2, 3], requires_grad=True)'', h)) store0 2
       = Some (''Parameter containing:'' @ [CHR 0x0A]
                 @ ''tensor([1, 2, 3], requires_grad=True)'', store0)"
  using repr_banner
    [where Tensor_repr = "\<lambda>h t. (''tensor([1, 2, 3], requires_grad=True)'', h)"
       and h = store0 and self = 2 and p = tagged and h' = store0
       and s = "''tensor([1, 2, 3], requires_grad=True)''"]
    store0_tagged(1)
  by simp

section \<open>The state dict of a module\<close>

lemma state_dict_set_tags:
  "lookup h a = Some (Param p) \<Longrightarrow>
   state_dict (h[a := Param (p\<lparr>tags := t\<rparr>)]) m = state_dict h m"
proof (induction m)
  case Nil
  show ?case by simp
next
  case (Cons x m)
  then show ?case
    by (cases x) (auto simp: lookup_update data_def split: option.splits obj.splits)
qed

lemma state_dict_set_dict:
  "lookup h a = Some (Dict kvs) \<Longrightarrow>
   state_dict (h[a := Dict kvs']) m = state_dict h m"
proof (induction m)
  case Nil
  show ?case by simp
next
  case (Cons x m)
  then show ?case
    by (cases x) (auto simp: lookup_update split: option.splits obj.splits)
qed

text \<open>
  C10. The state dict of a module does not depend on tags: it is the same after the tags
  attribute of a Parameter is set to another dict, and the same after the contents of a
  dict of the store change. Its entries hold the data and the \<^verbatim>\<open>requires_grad\<close> flag
  of each named Parameter, and nothing else.
\<close>

theorem state_dict_without_tags:
  "(lookup h a = Some (Param p) \<longrightarrow>
      state_dict (h[a := Param (p\<lparr>tags := t\<rparr>)]) m = state_dict h m)
   \<and> (lookup h b = Some (Dict kvs) \<longrightarrow>
      state_dict (h[b := Dict kvs']) m = state_dict h m)"
proof (intro conjI impI)
  assume "lookup h a = Some (Param p)"
  then show "state_dict (h[a := Param (p\<lparr>tags := t\<rparr>)]) m = state_dict h m"
    by (rule state_dict_set_tags)
next
  assume "lookup h b = Some (Dict kvs)"
  then show "state_dict (h[b := Dict kvs']) m = state_dict h m"
    by (rule state_dict_set_dict)
qed

theorem state_dict_without_tags_witness:
  "lookup store0 2 = Some (Param tagged)
   \<and> state_dict (store0[2 := Param (tagged\<lparr>tags := 3\<rparr>)]) [(''weight'', 2), (''bias'', 4)]
       = state_dict store0 [(''weight'', 2), (''bias'', 4)]
   \<and> lookup store0 1 = Some (Dict [(''optimizer'', ''sgd'')])
   \<and> state_dict (store0[1 := Dict []]) [(''weight'', 2), (''bias'', 4)]
       = state_dict store0 [(''weight'', 2), (''bias'', 4)]
   \<and> state_dict store0 [(''weight'', 2), (''bias'', 4)]
       = Some [(''weight'', data tagged, True), (''bias'', data untagged, False)]"
proof -
  have d: "lookup store0 1 = Some (Dict [(''optimizer'', ''sgd'')])"
    by (simp add: store0_def lookup_def)
  have v: "state_dict store0 [(''weight'', 2), (''bias'', 4)]
       = Some [(''weight'', data tagged, True), (''bias'', data untagged, False)]"
    by (simp add: store0_tagged(1) store0_untagged(1)) (simp add: tagged_def untagged_def)
  show ?thesis
    using state_dict_without_tags
      [where h = store0 and a = 2 and p = tagged and t = 3 and b = 1
         and kvs = "[(''optimizer'', ''sgd'')]" and kvs' = "[]"
         and m = "[(''weight'', 2), (''bias'', 4)]"]
      store0_tagged(1) d v
    by simp
qed


end
